theory Spec2Isabelle
  imports Complex_Main "HOL-Library.Signed_Division"
begin

section \<open>Camera viewpoint navigation of the city viewer\<close>

text \<open>
  The development embeds the navigation code of the React component \<^verbatim>\<open>App\<close>
  (\<^verbatim>\<open>src/App.jsx\<close>): the viewpoint catalog, the single-flight camera transition
  (\<^verbatim>\<open>animateToViewpoint\<close> and its inner \<^verbatim>\<open>animate\<close>), the debounced wheel handler and
  the start-up code of the effect. Line numbers refer to \<^verbatim>\<open>src/App.jsx\<close>. The second
  copy of the component, \<^verbatim>\<open>part_000\<close>, has the same navigation code; it has no
  \<^verbatim>\<open>isEditingRef\<close>, other values in the first two catalog entries and an \<^verbatim>\<open>if\<close>
  statement in place of the conditional expression of the wheel callback.

  JavaScript numbers are modelled as follows. In the state machine, camera coordinates,
  wheel deltas, durations and the easing arithmetic are real numbers, without IEEE
  rounding. The interpolation of the pose is given a second time in binary64, with the
  rounding of every operation, for the statements about the exact pose at the ends of a
  transition. \<^verbatim>\<open>Date.now()\<close> readings and the viewpoint index are integers. Where the
  JavaScript arithmetic leaves the real numbers (a quotient that is \<^verbatim>\<open>NaN\<close> or infinite)
  or throws, the model returns an error value.
\<close>

subsection \<open>Data\<close>

datatype Vector3 = Vector3 real real real

record viewpoint =
  position :: Vector3
  lookAt :: Vector3
  name :: string

type_synonym pose = "Vector3 \<times> Vector3"

text \<open>The catalog of \<^verbatim>\<open>src/App.jsx\<close> (lines 23-33).\<close>

definition viewpoints :: "viewpoint list" where
  "viewpoints =
    [\<lparr>position = Vector3 52 (-7) 5, lookAt = Vector3 43 (-3) 16, name = ''City Overview''\<rparr>,
     \<lparr>position = Vector3 59 (-8) (-9), lookAt = Vector3 59 4 (-40), name = ''Tall Building''\<rparr>,
     \<lparr>position = Vector3 (-10) 2 5, lookAt = Vector3 0 2 0, name = ''Street Level''\<rparr>,
     \<lparr>position = Vector3 15 8 (-10), lookAt = Vector3 0 5 0, name = ''Corner View''\<rparr>,
     \<lparr>position = Vector3 0 5 15, lookAt = Vector3 0 0 0, name = ''Central Plaza''\<rparr>,
     \<lparr>position = Vector3 (-15) 12 0, lookAt = Vector3 0 5 0, name = ''Side Angle''\<rparr>]"

text \<open>The catalog of the second copy of the component (\<^verbatim>\<open>part_000\<close>, lines 14-30): the
  first two entries differ.\<close>

definition viewpoints_part_000 :: "viewpoint list" where
  "viewpoints_part_000 =
    [\<lparr>position = Vector3 0 30 0, lookAt = Vector3 0 0 0, name = ''City Overview''\<rparr>,
     \<lparr>position = Vector3 8 15 8, lookAt = Vector3 5 10 5, name = ''Tall Building''\<rparr>,
     \<lparr>position = Vector3 (-10) 2 5, lookAt = Vector3 0 2 0, name = ''Street Level''\<rparr>,
     \<lparr>position = Vector3 15 8 (-10), lookAt = Vector3 0 5 0, name = ''Corner View''\<rparr>,
     \<lparr>position = Vector3 0 5 15, lookAt = Vector3 0 0 0, name = ''Central Plaza''\<rparr>,
     \<lparr>position = Vector3 (-15) 12 0, lookAt = Vector3 0 5 0, name = ''Side Angle''\<rparr>]"

datatype error =
  TypeError     \<comment> \<open>a property read on \<^verbatim>\<open>undefined\<close>\<close>
| NonFinite     \<comment> \<open>the arithmetic produced \<^verbatim>\<open>NaN\<close> or an infinity\<close>
| NotEnabled    \<comment> \<open>the browser cannot deliver this input in this state\<close>

subsection \<open>Easing and interpolation\<close>

text \<open>Line 82 of \<^verbatim>\<open>App.jsx\<close> (line 73 of \<^verbatim>\<open>part_000\<close>, there called
  \<^verbatim>\<open>easeInOut\<close>):
  \<^verbatim>\<open>progress < 0.5 ? 2 * progress * progress : 1 - Math.pow(-2 * progress + 2, 3) / 2\<close>.\<close>

definition ease :: "real \<Rightarrow> real" where
  "ease progress =
     (if progress < 1 / 2 then 2 * progress * progress
      else 1 - (- 2 * progress + 2) ^ 3 / 2)"

text \<open>Modelled from the spec: \<^verbatim>\<open>THREE.Vector3.lerpVectors\<close> belongs to the three.js
  library and is not under \<^verbatim>\<open>src/\<close>; the spec calls it the linear interpolation between
  two poses. Each component is \<^verbatim>\<open>v1 + (v2 - v1) * alpha\<close>. This definition computes it in
  exact arithmetic; \<open>lerpVectors64\<close> below computes it as the program does, in binary64.\<close>

fun lerpVectors :: "Vector3 \<Rightarrow> Vector3 \<Rightarrow> real \<Rightarrow> Vector3" where
  "lerpVectors (Vector3 x1 y1 z1) (Vector3 x2 y2 z2) alpha =
     Vector3 (x1 + (x2 - x1) * alpha) (y1 + (y2 - y1) * alpha) (z1 + (z2 - z1) * alpha)"

text \<open>\<^verbatim>\<open>Math.min(elapsed / duration, 1)\<close>. With a zero duration the quotient is
  \<^verbatim>\<open>+Infinity\<close> for a positive elapsed time (the minimum is then 1), \<^verbatim>\<open>NaN\<close> for
  elapsed time 0 and \<^verbatim>\<open>-Infinity\<close> for a negative one.\<close>

definition progress_of :: "int \<Rightarrow> real \<Rightarrow> real option" where
  "progress_of elapsed d =
     (if d = 0 then (if 0 < elapsed then Some 1 else None)
      else Some (min (real_of_int elapsed / d) 1))"

subsection \<open>The interpolation in binary64\<close>

text \<open>
  JavaScript numbers are IEEE 754 binary64. A finite one is \<open>m * 2\<^sup>e\<close> with
  \<open>\<bar>m\<bar> < 2\<^sup>5\<^sup>3\<close> and \<open>-1074 \<le> e \<le> 971\<close>; \<open>Binary64 m e\<close> stands for it. The two
  zeros are not told apart, and \<open>None\<close> stands for the infinities and \<^verbatim>\<open>NaN\<close>, from
  which the interpolation never returns to a finite number.
\<close>

datatype binary64 = Binary64 int int



text \<open>The number of binary digits of a natural number.\<close>

fun bit_length :: "nat \<Rightarrow> nat" where
  "bit_length n = (if n = 0 then 0 else Suc (bit_length (n div 2)))"

declare bit_length.simps [simp del]

text \<open>\<open>m / 2\<^sup>k\<close> rounded to the nearest integer, a tie going to the even one.\<close>

definition rne :: "int \<Rightarrow> nat \<Rightarrow> int" where
  "rne m k =
     (let q = m div 2 ^ k; r = m mod 2 ^ k
      in if 2 * r < 2 ^ k then q
         else if 2 ^ k < 2 * r then q + 1
         else if even q then q else q + 1)"

text \<open>
  The exact value \<open>m * 2\<^sup>e\<close> rounded to binary64, to nearest with ties to even: the
  significand keeps 53 bits, or fewer below the smallest normal exponent; a carry out of
  the rounding moves to the next exponent; a result of magnitude \<open>2\<^sup>1\<^sup>0\<^sup>2\<^sup>4\<close> or more is
  an infinity.
\<close>

definition round64 :: "int \<Rightarrow> int \<Rightarrow> binary64 option" where
  "round64 m e =
     (let k = max (int (bit_length (nat \<bar>m\<bar>)) - 53) (- 1074 - e);
          m1 = (if k \<le> 0 then m else rne m (nat k));
          e1 = (if k \<le> 0 then e else e + k);
          m2 = (if \<bar>m1\<bar> = 2 ^ 53 then m1 div 2 else m1);
          e2 = (if \<bar>m1\<bar> = 2 ^ 53 then e1 + 1 else e1)
      in if e2 \<le> 971 then Some (Binary64 m2 e2)
         else if \<bar>m2\<bar> * 2 ^ nat (e2 - 971) < 2 ^ 53
              then Some (Binary64 (m2 * 2 ^ nat (e2 - 971)) 971)
              else None)"

text \<open>The JavaScript operators \<^verbatim>\<open>+\<close>, \<^verbatim>\<open>-\<close> and \<^verbatim>\<open>*\<close> on finite numbers: the exact
  result, rounded.\<close>

fun fadd :: "binary64 \<Rightarrow> binary64 \<Rightarrow> binary64 option" where
  "fadd (Binary64 m1 e1) (Binary64 m2 e2) =
     round64 (m1 * 2 ^ nat (e1 - min e1 e2) + m2 * 2 ^ nat (e2 - min e1 e2)) (min e1 e2)"

fun fsub :: "binary64 \<Rightarrow> binary64 \<Rightarrow> binary64 option" where
  "fsub (Binary64 m1 e1) (Binary64 m2 e2) =
     round64 (m1 * 2 ^ nat (e1 - min e1 e2) - m2 * 2 ^ nat (e2 - min e1 e2)) (min e1 e2)"

fun fmul :: "binary64 \<Rightarrow> binary64 \<Rightarrow> binary64 option" where
  "fmul (Binary64 m1 e1) (Binary64 m2 e2) = round64 (m1 * m2) (e1 + e2)"

text \<open>Modelled from the spec: one component of \<^verbatim>\<open>THREE.Vector3.lerpVectors\<close> (three.js,
  not under \<^verbatim>\<open>src/\<close>), the spec's linear interpolation \<^verbatim>\<open>v1 + (v2 - v1) * alpha\<close>,
  evaluated as JavaScript does: the difference, the product and the sum are each rounded.\<close>

definition lerp64 :: "binary64 \<Rightarrow> binary64 \<Rightarrow> binary64 \<Rightarrow> binary64 option" where
  "lerp64 v1 v2 alpha =
     (case fsub v2 v1 of
        None \<Rightarrow> None
      | Some d \<Rightarrow> (case fmul d alpha of None \<Rightarrow> None | Some p \<Rightarrow> fadd v1 p))"



subsection \<open>Index arithmetic of the wheel handler\<close>

text \<open>The JavaScript remainder \<^verbatim>\<open>a % b\<close> takes the sign of the dividend; it is
  \<^verbatim>\<open>NaN\<close> when \<open>b\<close> is 0.\<close>

definition js_rem :: "int \<Rightarrow> int \<Rightarrow> int option" where
  "js_rem a b = (if b = 0 then None else Some (a smod b))"

text \<open>Lines 127-128 of \<^verbatim>\<open>App.jsx\<close>: the new index computed inside the state updater.
  \<open>n\<close> is \<^verbatim>\<open>viewpoints.length\<close>.\<close>

definition next_index :: "int \<Rightarrow> real \<Rightarrow> int \<Rightarrow> int option" where
  "next_index n deltaY prev =
     (if 0 < deltaY then js_rem (prev + 1) n else js_rem (prev - 1 + n) n)"

subsection \<open>State\<close>

text \<open>The variables captured by the closure \<^verbatim>\<open>animate\<close> of one accepted call of
  \<^verbatim>\<open>animateToViewpoint\<close> (lines 70-77): the recorded start pose, the target pose, the
  start time and the duration.\<close>

record flight =
  startPosition :: Vector3
  startLookAt :: Vector3
  targetPosition :: Vector3
  targetLookAt :: Vector3
  startTime :: int
  duration :: real

text \<open>
  The state of the mounted component: the React state \<^verbatim>\<open>currentViewpoint\<close>, the flag
  \<^verbatim>\<open>isAnimating\<close>, \<^verbatim>\<open>isEditingRef.current\<close>, \<^verbatim>\<open>camera.position\<close>,
  \<^verbatim>\<open>controls.target\<close>, the \<^verbatim>\<open>animate\<close> closure waiting in
  \<^verbatim>\<open>requestAnimationFrame\<close> (if any), the timer held in \<^verbatim>\<open>scrollTimeout\<close> while
  it has not fired (the earliest time at which it may fire and the \<^verbatim>\<open>deltaY\<close> of the
  event its callback captured), and the time of the last input delivered.
\<close>

record app =
  currentViewpoint :: int
  isAnimating :: bool
  isEditing :: bool
  camera_position :: Vector3
  controls_target :: Vector3
  frame_request :: "flight option"
  scrollTimeout :: "(int \<times> real) option"
  clock :: int

subsection \<open>The camera transition\<close>

text \<open>
  \<^verbatim>\<open>controls.update()\<close> is the \<^verbatim>\<open>OrbitControls\<close> method of three.js; it may move the
  camera (damping, clamping of the polar angle). It is not under \<^verbatim>\<open>src/\<close> and is taken as
  the parameter \<open>controls_update\<close>, a function on the pair of \<^verbatim>\<open>camera.position\<close> and
  \<^verbatim>\<open>controls.target\<close>.

  The inner \<^verbatim>\<open>animate\<close> of lines 79-93; \<open>now\<close> is the reading of \<^verbatim>\<open>Date.now()\<close>.
\<close>

definition animate :: "(pose \<Rightarrow> pose) \<Rightarrow> flight \<Rightarrow> int \<Rightarrow> app \<Rightarrow> error + app" where
  "animate controls_update f now s =
     (case progress_of (now - startTime f) (duration f) of
        None \<Rightarrow> Inl NonFinite
      | Some progress \<Rightarrow>
          (let e = ease progress;
               p = controls_update
                     (lerpVectors (startPosition f) (targetPosition f) e,
                      lerpVectors (startLookAt f) (targetLookAt f) e);
               s1 = s\<lparr>camera_position := fst p, controls_target := snd p\<rparr>
           in if progress < 1 then Inr (s1\<lparr>frame_request := Some f\<rparr>)
              else Inr (s1\<lparr>isAnimating := False, isEditing := False,
                               frame_request := None\<rparr>)))"

text \<open>\<^verbatim>\<open>animateToViewpoint\<close> (lines 70-96). \<open>t0\<close> is the clock reading stored in
  \<^verbatim>\<open>startTime\<close>, \<open>t1\<close> the reading of the first call of \<^verbatim>\<open>animate\<close>.\<close>

definition animateToViewpoint ::
  "(pose \<Rightarrow> pose) \<Rightarrow> Vector3 \<Rightarrow> Vector3 \<Rightarrow> real \<Rightarrow> int \<Rightarrow> int \<Rightarrow> app \<Rightarrow> error + app" where
  "animateToViewpoint controls_update tpos tlook d t0 t1 s =
     (if isAnimating s then Inr s
      else animate controls_update
             \<lparr>startPosition = camera_position s, startLookAt = controls_target s,
              targetPosition = tpos, targetLookAt = tlook, startTime = t0, duration = d\<rparr>
             t1 (s\<lparr>isEditing := True, isAnimating := True\<rparr>))"

text \<open>\<^verbatim>\<open>setViewpoint\<close> (lines 99-105). \<^verbatim>\<open>viewpoints[index]\<close> is \<^verbatim>\<open>undefined\<close>
  outside the array and reading \<^verbatim>\<open>vp.position\<close> then throws, before the transition is
  asked for. The duration is the default 2000.\<close>

definition setViewpoint ::
  "(pose \<Rightarrow> pose) \<Rightarrow> viewpoint list \<Rightarrow> int \<Rightarrow> int \<Rightarrow> int \<Rightarrow> app \<Rightarrow> error + app" where
  "setViewpoint controls_update vps index t0 t1 s =
     (if 0 \<le> index \<and> index < int (length vps)
      then (let vp = vps ! nat index
            in animateToViewpoint controls_update (position vp) (lookAt vp) 2000 t0 t1 s)
      else Inl TypeError)"

text \<open>\<^verbatim>\<open>window.setCustomViewpoint\<close> (lines 108-110).\<close>

definition setCustomViewpoint ::
  "(pose \<Rightarrow> pose) \<Rightarrow> Vector3 \<Rightarrow> Vector3 \<Rightarrow> int \<Rightarrow> int \<Rightarrow> app \<Rightarrow> error + app" where
  "setCustomViewpoint controls_update pos look t0 t1 s =
     animateToViewpoint controls_update pos look 2000 t0 t1 s"

text \<open>\<^verbatim>\<open>handleCustomPosition\<close> (lines 204-207), the handler of the Apply Position
  button; its arguments are the values of the form fields.\<close>

definition handleCustomPosition ::
  "(pose \<Rightarrow> pose) \<Rightarrow> Vector3 \<Rightarrow> Vector3 \<Rightarrow> int \<Rightarrow> int \<Rightarrow> app \<Rightarrow> error + app" where
  "handleCustomPosition controls_update customPosition customLookAt t0 t1 s =
     setCustomViewpoint controls_update customPosition customLookAt t0 t1
       (s\<lparr>isEditing := True\<rparr>)"

subsection \<open>The wheel handler\<close>

text \<open>The callback given to \<^verbatim>\<open>setTimeout\<close> (lines 125-132): the state updater computes
  the new index, asks for the transition and returns the new index. The updater is taken
  to run once, when the timer fires. A \<^verbatim>\<open>NaN\<close> index makes \<^verbatim>\<open>setViewpoint\<close>
  throw.\<close>

definition wheel_timeout ::
  "(pose \<Rightarrow> pose) \<Rightarrow> viewpoint list \<Rightarrow> real \<Rightarrow> int \<Rightarrow> int \<Rightarrow> app \<Rightarrow> error + app" where
  "wheel_timeout controls_update vps deltaY t0 t1 s =
     (case next_index (int (length vps)) deltaY (currentViewpoint s) of
        None \<Rightarrow> Inl TypeError
      | Some next \<Rightarrow>
          (case setViewpoint controls_update vps next t0 t1 s of
             Inl e \<Rightarrow> Inl e
           | Inr s' \<Rightarrow> Inr (s'\<lparr>currentViewpoint := next\<rparr>)))"

text \<open>The same callback as written in \<^verbatim>\<open>part_000\<close> (lines 127-143): the test of
  \<^verbatim>\<open>event.deltaY\<close> selects one of two state updaters.\<close>

definition handleWheel_timeout ::
  "(pose \<Rightarrow> pose) \<Rightarrow> viewpoint list \<Rightarrow> real \<Rightarrow> int \<Rightarrow> int \<Rightarrow> app \<Rightarrow> error + app" where
  "handleWheel_timeout controls_update vps deltaY t0 t1 s =
     (if 0 < deltaY
      then (case js_rem (currentViewpoint s + 1) (int (length vps)) of
              None \<Rightarrow> Inl TypeError
            | Some next \<Rightarrow>
                (case setViewpoint controls_update vps next t0 t1 s of
                   Inl e \<Rightarrow> Inl e
                 | Inr s' \<Rightarrow> Inr (s'\<lparr>currentViewpoint := next\<rparr>)))
      else (case js_rem (currentViewpoint s - 1 + int (length vps)) (int (length vps)) of
              None \<Rightarrow> Inl TypeError
            | Some next \<Rightarrow>
                (case setViewpoint controls_update vps next t0 t1 s of
                   Inl e \<Rightarrow> Inl e
                 | Inr s' \<Rightarrow> Inr (s'\<lparr>currentViewpoint := next\<rparr>))))"

subsection \<open>Start-up and the render loop\<close>

text \<open>The body of the effect as far as it concerns navigation: \<^verbatim>\<open>useState(0)\<close>,
  the flag of line 67, the initial view of lines 113-116 and the first call of the render
  loop (line 195), which calls \<^verbatim>\<open>controls.update()\<close> once more. An empty catalog makes
  \<^verbatim>\<open>initial.position\<close> throw.\<close>

definition mount :: "(pose \<Rightarrow> pose) \<Rightarrow> viewpoint list \<Rightarrow> int \<Rightarrow> error + app" where
  "mount controls_update vps t =
     (case vps of
        [] \<Rightarrow> Inl TypeError
      | initial # _ \<Rightarrow>
          (let p = controls_update (position initial, lookAt initial);
               q = controls_update p
           in Inr \<lparr>currentViewpoint = 0, isAnimating = False, isEditing = False,
                   camera_position = fst q, controls_target = snd q,
                   frame_request = None, scrollTimeout = None, clock = t\<rparr>))"

text \<open>One animation frame: the render loop of lines 189-194 runs first (its request is
  always the older one), then the \<^verbatim>\<open>animate\<close> closure of the transition if one is
  waiting.\<close>

definition render_frame :: "(pose \<Rightarrow> pose) \<Rightarrow> int \<Rightarrow> app \<Rightarrow> error + app" where
  "render_frame controls_update now s =
     (let p = controls_update (camera_position s, controls_target s);
          s1 = s\<lparr>camera_position := fst p, controls_target := snd p\<rparr>
      in case frame_request s of
           None \<Rightarrow> Inr s1
         | Some f \<Rightarrow> animate controls_update f now (s1\<lparr>frame_request := None\<rparr>))"

subsection \<open>Inputs delivered by the browser\<close>

text \<open>
  Each input carries the clock reading at which the browser delivers it: a wheel event with
  its \<^verbatim>\<open>deltaY\<close>, the firing of the timer held in \<^verbatim>\<open>scrollTimeout\<close>, an animation
  frame, and a click on Apply Position with the form values. A handler reads the clock
  of its input. An input is not enabled when its time lies before the clock, and the timer
  cannot fire when none is pending or before its 100 ms have passed.
\<close>

datatype input =
  Wheel int real
| Timeout int
| Frame int
| ApplyPosition int Vector3 Vector3

fun time_of :: "input \<Rightarrow> int" where
  "time_of (Wheel t _) = t"
| "time_of (Timeout t) = t"
| "time_of (Frame t) = t"
| "time_of (ApplyPosition t _ _) = t"

text \<open>The wheel listener of lines 120-135 clears the pending timer and sets a new one,
  100 ms ahead, whose callback captures the event.\<close>

definition step :: "(pose \<Rightarrow> pose) \<Rightarrow> viewpoint list \<Rightarrow> input \<Rightarrow> app \<Rightarrow> error + app" where
  "step controls_update vps i s =
     (if time_of i < clock s then Inl NotEnabled
      else
        (case i of
           Wheel t deltaY \<Rightarrow> Inr (s\<lparr>scrollTimeout := Some (t + 100, deltaY), clock := t\<rparr>)
         | Timeout t \<Rightarrow>
             (case scrollTimeout s of
                None \<Rightarrow> Inl NotEnabled
              | Some (due, deltaY) \<Rightarrow>
                  if t < due then Inl NotEnabled
                  else wheel_timeout controls_update vps deltaY t t
                         (s\<lparr>scrollTimeout := None, clock := t\<rparr>))
         | Frame t \<Rightarrow> render_frame controls_update t (s\<lparr>clock := t\<rparr>)
         | ApplyPosition t pos look \<Rightarrow>
             handleCustomPosition controls_update pos look t t (s\<lparr>clock := t\<rparr>)))"

fun run :: "(pose \<Rightarrow> pose) \<Rightarrow> viewpoint list \<Rightarrow> input list \<Rightarrow> app \<Rightarrow> error + app" where
  "run controls_update vps [] s = Inr s"
| "run controls_update vps (i # ins) s =
     (case step controls_update vps i s of
        Inl e \<Rightarrow> Inl e
      | Inr s' \<Rightarrow> run controls_update vps ins s')"

text \<open>The wheel events and the timer firings of a trace, in order.\<close>

fun wheels :: "input list \<Rightarrow> (int \<times> real) list" where
  "wheels [] = []"
| "wheels (Wheel t deltaY # ins) = (t, deltaY) # wheels ins"
| "wheels (_ # ins) = wheels ins"

fun timeouts :: "input list \<Rightarrow> int list" where
  "timeouts [] = []"
| "timeouts (Timeout t # ins) = t # timeouts ins"
| "timeouts (_ # ins) = timeouts ins"

text \<open>A burst: every event arrives less than 100 ms after the previous one.\<close>

fun burst :: "(int \<times> real) list \<Rightarrow> bool" where
  "burst [] = True"
| "burst [e] = True"
| "burst (e # e' # es) = (fst e' - fst e < 100 \<and> burst (e' # es))"

text \<open>Inputs that request neither a navigation nor a custom pose.\<close>

fun no_request :: "input \<Rightarrow> bool" where
  "no_request (Wheel _ _) = True"
| "no_request (Frame _) = True"
| "no_request _ = False"

subsection \<open>The easing curve\<close>

lemma ease_lower_mono:
  assumes "0 \<le> a" "a \<le> b"
  shows "2 * a * a \<le> 2 * b * (b::real)"
proof -
  have "a * a \<le> b * b" using assms by (intro mult_mono) auto
  then show ?thesis by simp
qed

lemma ease_upper_mono:
  assumes "a \<le> b" "b \<le> 1"
  shows "1 - (- 2 * a + 2) ^ 3 / 2 \<le> 1 - (- 2 * b + 2) ^ 3 / (2::real)"
proof -
  have "0 \<le> - 2 * b + 2" using assms by simp
  moreover have "- 2 * b + 2 \<le> - 2 * a + 2" using assms by simp
  ultimately have "(- 2 * b + 2) ^ 3 \<le> (- 2 * a + 2) ^ 3"
    by (rule power_mono[rotated])
  then show ?thesis by simp
qed

lemma ease_lower_le_half:
  assumes "0 \<le> a" "a < 1 / 2"
  shows "2 * a * a \<le> 1 / (2::real)"
proof -
  have "2 * a * a \<le> 2 * (1 / 2) * (1 / (2::real))"
    using assms by (intro ease_lower_mono) auto
  then show ?thesis by simp
qed

lemma ease_upper_ge_half:
  assumes "1 / 2 \<le> b" "b \<le> 1"
  shows "1 / (2::real) \<le> 1 - (- 2 * b + 2) ^ 3 / 2"
proof -
  have "1 - (- 2 * (1 / 2) + 2) ^ 3 / 2 \<le> 1 - (- 2 * b + 2) ^ 3 / (2::real)"
    using assms by (intro ease_upper_mono) auto
  then show ?thesis by simp
qed

text \<open>
  Claim C5. The easing function of the transition, \<open>2t\<^sup>2\<close> below one half and
  \<open>1 - (-2t + 2)\<^sup>3 / 2\<close> from one half on, is monotonic non-decreasing on the interval
  from 0 to 1 and takes the values 0 at 0, 1 at 1 and one half at one half.
\<close>

theorem ease_monotone_and_endpoints:
  "(\<forall>a b. 0 \<le> a \<and> a \<le> b \<and> b \<le> 1 \<longrightarrow> ease a \<le> ease b)
   \<and> ease 0 = 0 \<and> ease 1 = 1 \<and> ease (1 / 2) = 1 / 2"
proof (intro conjI allI impI)
  fix a b :: real
  assume h: "0 \<le> a \<and> a \<le> b \<and> b \<le> 1"
  show "ease a \<le> ease b"
  proof (cases "b < 1 / 2")
    case True
    then show ?thesis using h by (simp add: ease_def ease_lower_mono)
  next
    case bhalf: False
    show ?thesis
    proof (cases "a < 1 / 2")
      case True
      have "2 * a * a \<le> 1 / 2" using h True by (intro ease_lower_le_half) auto
      moreover have "1 / 2 \<le> 1 - (- 2 * b + 2) ^ 3 / 2"
        using h bhalf by (intro ease_upper_ge_half) auto
      ultimately show ?thesis using True bhalf by (simp add: ease_def)
    next
      case False
      have "1 - (- 2 * a + 2) ^ 3 / 2 \<le> 1 - (- 2 * b + 2) ^ 3 / 2"
        using h by (intro ease_upper_mono) auto
      then show ?thesis using False bhalf by (simp add: ease_def)
    qed
  qed
qed (simp_all add: ease_def)

theorem ease_monotone_and_endpoints_witness:
  "ease (1 / 4) \<le> ease (3 / 4) \<and> ease (1 / 4) = 1 / 8 \<and> ease (3 / 4) = 15 / 16"
proof -
  have "ease (1 / 4) \<le> ease (3 / 4)"
    using ease_monotone_and_endpoints by simp
  then show ?thesis by (simp add: ease_def power3_eq_cube)
qed

subsection \<open>Index arithmetic\<close>

lemma viewpoints_lengths: "length viewpoints = 6" "length viewpoints_part_000 = 6"
  by (simp_all add: viewpoints_def viewpoints_part_000_def)

lemma smod_nonneg: "0 \<le> a \<Longrightarrow> 0 < b \<Longrightarrow> a smod b = a mod (b::int)"
  by (cases "a = 0") (simp_all add: smod_int_alt_def)

lemma js_rem_in_range:
  "0 \<le> a \<Longrightarrow> 0 < n \<Longrightarrow> js_rem a n = Some (a mod n)"
  by (simp add: js_rem_def smod_nonneg)

lemma next_index_forward:
  "0 \<le> i \<Longrightarrow> i < n \<Longrightarrow> 0 < deltaY \<Longrightarrow> next_index n deltaY i = Some ((i + 1) mod n)"
  by (simp add: next_index_def js_rem_in_range)

lemma next_index_backward:
  "0 \<le> i \<Longrightarrow> i < n \<Longrightarrow> \<not> 0 < deltaY \<Longrightarrow> next_index n deltaY i = Some ((i - 1 + n) mod n)"
  by (simp add: next_index_def js_rem_in_range)

lemma next_index_total:
  assumes "0 \<le> i" "i < n"
  shows "\<exists>j. next_index n deltaY i = Some j \<and> 0 \<le> j \<and> j < n"
proof (cases "0 < deltaY")
  case True
  then show ?thesis using assms by (simp add: next_index_forward)
next
  case False
  then show ?thesis using assms by (simp add: next_index_backward)
qed

text \<open>
  Claim C7. For every index \<open>i\<close> with \<open>0 \<le> i < n\<close>, where \<open>n\<close> is the length of the
  catalog, the index arithmetic of the wheel handler satisfies next (prev i) = i: the
  branch taken for a delta that is not positive yields \<open>(i - 1 + n) mod n\<close>, the branch
  taken for a positive delta yields \<open>(j + 1) mod n\<close>, and the second applied to the
  result of the first gives back \<open>i\<close>.
\<close>

theorem next_prev_cyclic_inverse:
  assumes "0 \<le> i" and "i < n" and "0 < up" and "\<not> 0 < down"
  shows "next_index n down i = Some ((i - 1 + n) mod n)
     \<and> next_index n up ((i - 1 + n) mod n) = Some (((i - 1 + n) mod n + 1) mod n)
     \<and> ((i - 1 + n) mod n + 1) mod n = i"
proof -
  have n: "0 < n" using assms by simp
  have p: "0 \<le> (i - 1 + n) mod n" "(i - 1 + n) mod n < n" using n by simp_all
  have "((i - 1 + n) mod n + 1) mod n = (i - 1 + n + 1) mod n"
    by (simp add: mod_add_left_eq)
  also have "\<dots> = i" using assms by simp
  finally have e: "((i - 1 + n) mod n + 1) mod n = i" .
  show ?thesis
    using assms p e by (simp add: next_index_backward next_index_forward)
qed

theorem next_prev_cyclic_inverse_witness:
  "(0::int) \<le> 0 \<and> (0::int) < 6 \<and> (0::real) < 1 \<and> \<not> (0::real) < - 1
   \<and> next_index 6 (- 1) 0 = Some 5 \<and> next_index 6 1 5 = Some 0"
  using next_prev_cyclic_inverse [of 0 6 1 "- 1"] by simp

subsection \<open>Rounding to binary64\<close>


lemma bit_length_le: "n < 2 ^ j \<Longrightarrow> bit_length n \<le> j"
proof (induction j arbitrary: n)
  case 0
  then show ?case by (simp add: bit_length.simps)
next
  case (Suc j)
  show ?case
  proof (cases "n = 0")
    case True
    then show ?thesis by (simp add: bit_length.simps)
  next
    case False
    have "n div 2 < 2 ^ j" using Suc.prems by simp
    then have "bit_length (n div 2) \<le> j" by (rule Suc.IH)
    then show ?thesis using False by (simp add: bit_length.simps [of n])
  qed
qed

lemma round64_wf:
  assumes "\<bar>m\<bar> < 2 ^ 53" "- 1074 \<le> e" "e \<le> 971"
  shows "round64 m e = Some (Binary64 m e)"
proof -
  have "nat \<bar>m\<bar> < 2 ^ 53" using assms(1) by (simp add: nat_less_iff)
  then have "bit_length (nat \<bar>m\<bar>) \<le> 53" by (rule bit_length_le)
  then have "max (int (bit_length (nat \<bar>m\<bar>)) - 53) (- 1074 - e) \<le> 0"
    using assms(2) by simp
  then show ?thesis using assms(1,3) by (simp add: round64_def Let_def)
qed


























text \<open>
  At the two ends of a transition the easing value handed to the interpolation is the
  binary64 number 0 or 1, since every step of its computation is exact there. At elapsed
  time 0 the quotient \<^verbatim>\<open>0 / duration\<close> is 0 and \<^verbatim>\<open>2 * 0 * 0\<close> is 0. At an elapsed time
  that has reached the duration the rounded quotient is at least 1 and \<^verbatim>\<open>Math.min\<close>
  returns 1; then \<^verbatim>\<open>-2 * 1 + 2\<close> is 0, \<^verbatim>\<open>Math.pow(0, 3)\<close> and \<^verbatim>\<open>0 / 2\<close> are 0 by the
  language definition, and \<^verbatim>\<open>1 - 0\<close> is 1. The steps that are sums, differences and
  products are evaluated here.
\<close>

lemma easing_ends_binary64:
  "fmul (Binary64 2 0) (Binary64 0 0) = Some (Binary64 0 0)"
  "fmul (Binary64 0 0) (Binary64 0 0) = Some (Binary64 0 0)"
  "fmul (Binary64 (- 2) 0) (Binary64 1 0) = Some (Binary64 (- 2) 0)"
  "fadd (Binary64 (- 2) 0) (Binary64 2 0) = Some (Binary64 0 0)"
  "fsub (Binary64 1 0) (Binary64 0 0) = Some (Binary64 1 0)"
  by (simp_all add: round64_wf)

text \<open>When the difference of target and start is not finite, the interpolation is not finite
  either, even at easing value 0: the largest binary64 number and its negative.\<close>

lemma lerp64_difference_overflows:
  "fsub (Binary64 (- 9007199254740991) 971) (Binary64 9007199254740991 971) = None"
  "lerp64 (Binary64 9007199254740991 971) (Binary64 (- 9007199254740991) 971) (Binary64 0 0)
     = None"
  by (simp_all add: lerp64_def round64_def rne_def bit_length.simps Let_def)

subsection \<open>One tick of the transition\<close>

lemma lerpVectors_0: "lerpVectors a b 0 = a"
  by (cases a; cases b) simp

lemma lerpVectors_1: "lerpVectors a b 1 = b"
  by (cases a; cases b) simp

lemma progress_of_start: "0 < d \<Longrightarrow> progress_of 0 d = Some 0"
  by (simp add: progress_of_def)

lemma progress_of_done:
  assumes "0 < d" "d \<le> real_of_int elapsed"
  shows "progress_of elapsed d = Some 1"
proof -
  have "1 \<le> real_of_int elapsed / d" using assms by (simp add: le_divide_eq)
  then show ?thesis using assms by (simp add: progress_of_def min_def)
qed

lemma progress_of_early:
  assumes "0 < d" "real_of_int elapsed < d"
  shows "\<exists>p. progress_of elapsed d = Some p \<and> p < 1"
proof -
  have "real_of_int elapsed / d < 1" using assms by (simp add: divide_less_eq)
  then show ?thesis using assms by (simp add: progress_of_def min_def)
qed

lemma animate_keeps:
  assumes "animate controls_update f now s = Inr s'"
  shows "currentViewpoint s' = currentViewpoint s \<and> scrollTimeout s' = scrollTimeout s
       \<and> clock s' = clock s"
  using assms by (auto simp: animate_def Let_def split: option.splits if_splits)

lemma animate_total:
  assumes "duration f \<noteq> 0"
  shows "\<exists>s'. animate controls_update f now s = Inr s'"
  using assms by (simp add: animate_def progress_of_def Let_def)

lemma animate_at_start:
  assumes "0 < duration f"
  shows "animate controls_update f (startTime f) s =
           Inr (s\<lparr>camera_position := fst (controls_update (startPosition f, startLookAt f)),
                  controls_target := snd (controls_update (startPosition f, startLookAt f)),
                  frame_request := Some f\<rparr>)"
  using assms by (simp add: animate_def progress_of_start ease_def lerpVectors_0 Let_def)

lemma animate_at_end:
  assumes "0 < duration f" "duration f \<le> real_of_int (now - startTime f)"
  shows "animate controls_update f now s =
           Inr (s\<lparr>camera_position := fst (controls_update (targetPosition f, targetLookAt f)),
                  controls_target := snd (controls_update (targetPosition f, targetLookAt f)),
                  isAnimating := False, isEditing := False, frame_request := None\<rparr>)"
  using progress_of_done [OF assms]
  by (simp add: animate_def ease_def lerpVectors_1 Let_def)




subsection \<open>Starting a transition\<close>

text \<open>
  Claim C1. A call of \<^verbatim>\<open>animateToViewpoint\<close> made while a transition is active
  returns at once and changes nothing: the flag, the closure waiting for the next frame
  (with its recorded start pose, target pose and start time) and the camera are the same
  afterwards, so the transition in flight goes on toward its own target and the request
  is not queued.
\<close>

theorem animateToViewpoint_single_flight:
  "isAnimating s \<Longrightarrow> animateToViewpoint controls_update tpos tlook d t0 t1 s = Inr s"
  by (simp add: animateToViewpoint_def)

theorem animateToViewpoint_single_flight_witness:
  "isAnimating
     \<lparr>currentViewpoint = 1, isAnimating = True, isEditing = True,
       camera_position = Vector3 52 (- 7) 5, controls_target = Vector3 43 (- 3) 16,
       frame_request =
         Some \<lparr>startPosition = Vector3 52 (- 7) 5, startLookAt = Vector3 43 (- 3) 16,
               targetPosition = Vector3 59 (- 8) (- 9), targetLookAt = Vector3 59 4 (- 40),
               startTime = 100, duration = 2000\<rparr>,
       scrollTimeout = None, clock = 100\<rparr>
   \<and> animateToViewpoint id (Vector3 1 2 3) (Vector3 0 0 0) 2000 600 600
     \<lparr>currentViewpoint = 1, isAnimating = True, isEditing = True,
       camera_position = Vector3 52 (- 7) 5, controls_target = Vector3 43 (- 3) 16,
       frame_request =
         Some \<lparr>startPosition = Vector3 52 (- 7) 5, startLookAt = Vector3 43 (- 3) 16,
               targetPosition = Vector3 59 (- 8) (- 9), targetLookAt = Vector3 59 4 (- 40),
               startTime = 100, duration = 2000\<rparr>,
       scrollTimeout = None, clock = 100\<rparr>
   = Inr
     \<lparr>currentViewpoint = 1, isAnimating = True, isEditing = True,
       camera_position = Vector3 52 (- 7) 5, controls_target = Vector3 43 (- 3) 16,
       frame_request =
         Some \<lparr>startPosition = Vector3 52 (- 7) 5, startLookAt = Vector3 43 (- 3) 16,
               targetPosition = Vector3 59 (- 8) (- 9), targetLookAt = Vector3 59 4 (- 40),
               startTime = 100, duration = 2000\<rparr>,
       scrollTimeout = None, clock = 100\<rparr>"
  using animateToViewpoint_single_flight
    [of "\<lparr>currentViewpoint = 1, isAnimating = True, isEditing = True,
       camera_position = Vector3 52 (- 7) 5, controls_target = Vector3 43 (- 3) 16,
       frame_request =
         Some \<lparr>startPosition = Vector3 52 (- 7) 5, startLookAt = Vector3 43 (- 3) 16,
               targetPosition = Vector3 59 (- 8) (- 9), targetLookAt = Vector3 59 4 (- 40),
               startTime = 100, duration = 2000\<rparr>,
       scrollTimeout = None, clock = 100\<rparr>" id "Vector3 1 2 3" "Vector3 0 0 0" 2000 600 600]
  by simp

text \<open>
  Claim C9. A custom-pose request issued while no transition is active is accepted: the
  flag is set and a transition is created whose target is the requested position and
  look-at, whose start is the pose of the camera at the time of the request and whose
  duration is the default 2000; the call returns and the current viewpoint index is not
  changed. The first tick runs inside the call: when its clock reading is less than
  2000 ms after the recorded start time, the transition is still active on return and its
  closure waits for the next frame.
\<close>

theorem setCustomViewpoint_idle:
  assumes "\<not> isAnimating s"
  shows "\<exists>s'. setCustomViewpoint controls_update pos look t0 t1 s = Inr s'
       \<and> animate controls_update
             \<lparr>startPosition = camera_position s, startLookAt = controls_target s,
              targetPosition = pos, targetLookAt = look, startTime = t0, duration = 2000\<rparr>
             t1 (s\<lparr>isEditing := True, isAnimating := True\<rparr>) = Inr s'
       \<and> currentViewpoint s' = currentViewpoint s
       \<and> (t1 - t0 < 2000 \<longrightarrow>
            isAnimating s'
            \<and> frame_request s' =
                Some \<lparr>startPosition = camera_position s, startLookAt = controls_target s,
                      targetPosition = pos, targetLookAt = look,
                      startTime = t0, duration = 2000\<rparr>)"
proof -
  let ?f = "\<lparr>startPosition = camera_position s, startLookAt = controls_target s,
             targetPosition = pos, targetLookAt = look, startTime = t0, duration = 2000\<rparr>"
  let ?s1 = "s\<lparr>isEditing := True, isAnimating := True\<rparr>"
  have e: "setCustomViewpoint controls_update pos look t0 t1 s = animate controls_update ?f t1 ?s1"
    using assms by (simp add: setCustomViewpoint_def animateToViewpoint_def)
  obtain s' where s': "animate controls_update ?f t1 ?s1 = Inr s'"
    using animate_total [of ?f controls_update t1 ?s1] by auto
  have k: "currentViewpoint s' = currentViewpoint s"
    using animate_keeps [OF s'] by simp
  have "t1 - t0 < 2000 \<longrightarrow> isAnimating s' \<and> frame_request s' = Some ?f"
  proof
    assume "t1 - t0 < 2000"
    then have "real_of_int (t1 - t0) < 2000" by simp
    then obtain p where p: "progress_of (t1 - t0) 2000 = Some p" "p < 1"
      using progress_of_early [of 2000 "t1 - t0"] by auto
    then show "isAnimating s' \<and> frame_request s' = Some ?f"
      using s' by (auto simp: animate_def Let_def)
  qed
  then show ?thesis using e s' k by simp
qed

theorem setCustomViewpoint_idle_witness:
  "\<not> isAnimating
     \<lparr>currentViewpoint = 0, isAnimating = False, isEditing = False,
       camera_position = Vector3 52 (- 7) 5, controls_target = Vector3 43 (- 3) 16,
       frame_request = None, scrollTimeout = None, clock = 0\<rparr>
   \<and> (0::int) - 0 < 2000
   \<and> (\<exists>s'. setCustomViewpoint id (Vector3 1 2 3) (Vector3 0 0 0) 0 0
     \<lparr>currentViewpoint = 0, isAnimating = False, isEditing = False,
       camera_position = Vector3 52 (- 7) 5, controls_target = Vector3 43 (- 3) 16,
       frame_request = None, scrollTimeout = None, clock = 0\<rparr> = Inr s'
       \<and> isAnimating s'
       \<and> frame_request s' =
           Some \<lparr>startPosition = Vector3 52 (- 7) 5, startLookAt = Vector3 43 (- 3) 16,
                 targetPosition = Vector3 1 2 3, targetLookAt = Vector3 0 0 0,
                 startTime = 0, duration = 2000\<rparr>
       \<and> currentViewpoint s' = 0)"
  using setCustomViewpoint_idle
    [of "\<lparr>currentViewpoint = 0, isAnimating = False, isEditing = False,
       camera_position = Vector3 52 (- 7) 5, controls_target = Vector3 43 (- 3) 16,
       frame_request = None, scrollTimeout = None, clock = 0\<rparr>" id "Vector3 1 2 3" "Vector3 0 0 0" 0 0]
  by auto

subsection \<open>What the handlers leave unchanged\<close>

text \<open>None of the transition code touches the index, the timer or the clock, and with
  the default duration every call returns.\<close>

lemma animateToViewpoint_keeps:
  assumes "animateToViewpoint controls_update tpos tlook d t0 t1 s = Inr s'"
  shows "currentViewpoint s' = currentViewpoint s \<and> scrollTimeout s' = scrollTimeout s
       \<and> clock s' = clock s"
proof (cases "isAnimating s")
  case True
  then show ?thesis using assms by (simp add: animateToViewpoint_def)
next
  case False
  then show ?thesis
    using assms animate_keeps [of controls_update _ t1 "s\<lparr>isEditing := True, isAnimating := True\<rparr>" s']
    by (simp add: animateToViewpoint_def)
qed

lemma animateToViewpoint_total:
  assumes "d \<noteq> 0"
  shows "\<exists>s'. animateToViewpoint controls_update tpos tlook d t0 t1 s = Inr s'"
  using assms by (simp add: animateToViewpoint_def animate_total)

lemma setViewpoint_keeps:
  assumes "setViewpoint controls_update vps index t0 t1 s = Inr s'"
  shows "currentViewpoint s' = currentViewpoint s \<and> scrollTimeout s' = scrollTimeout s
       \<and> clock s' = clock s"
  using assms animateToViewpoint_keeps
  by (simp add: setViewpoint_def Let_def split: if_splits)

lemma setViewpoint_total:
  assumes "0 \<le> index" "index < int (length vps)"
  shows "\<exists>s'. setViewpoint controls_update vps index t0 t1 s = Inr s'"
  using assms by (simp add: setViewpoint_def Let_def animateToViewpoint_total)


lemma wheel_timeout_result:
  assumes "wheel_timeout controls_update vps deltaY t0 t1 s = Inr s'"
  shows "next_index (int (length vps)) deltaY (currentViewpoint s) = Some (currentViewpoint s')
       \<and> scrollTimeout s' = scrollTimeout s \<and> clock s' = clock s"
  using assms setViewpoint_keeps
  by (fastforce simp: wheel_timeout_def split: option.splits sum.splits)

lemma wheel_timeout_total:
  assumes "0 \<le> currentViewpoint s" "currentViewpoint s < int (length vps)"
  shows "\<exists>s'. wheel_timeout controls_update vps deltaY t0 t1 s = Inr s'
           \<and> 0 \<le> currentViewpoint s' \<and> currentViewpoint s' < int (length vps)"
proof -
  obtain j where j: "next_index (int (length vps)) deltaY (currentViewpoint s) = Some j"
      "0 \<le> j" "j < int (length vps)"
    using next_index_total [OF assms] by blast
  obtain s1 where "setViewpoint controls_update vps j t0 t1 s = Inr s1"
    using setViewpoint_total [OF j(2,3)] by blast
  then show ?thesis using j by (simp add: wheel_timeout_def)
qed


lemma wheel_timeout_accepted:
  assumes "0 \<le> currentViewpoint s" "currentViewpoint s < int (length vps)" "\<not> isAnimating s"
  shows "\<exists>j. next_index (int (length vps)) deltaY (currentViewpoint s) = Some j
           \<and> 0 \<le> j \<and> j < int (length vps)
           \<and> wheel_timeout controls_update vps deltaY t t s =
               Inr (s\<lparr>currentViewpoint := j, isAnimating := True, isEditing := True,
                      camera_position :=
                        fst (controls_update (camera_position s, controls_target s)),
                      controls_target :=
                        snd (controls_update (camera_position s, controls_target s)),
                      frame_request :=
                        Some \<lparr>startPosition = camera_position s,
                              startLookAt = controls_target s,
                              targetPosition = position (vps ! nat j),
                              targetLookAt = lookAt (vps ! nat j),
                              startTime = t, duration = 2000\<rparr>\<rparr>)"
proof -
  obtain j where j: "next_index (int (length vps)) deltaY (currentViewpoint s) = Some j"
      "0 \<le> j" "j < int (length vps)"
    using next_index_total [OF assms(1,2)] by blast
  let ?f = "\<lparr>startPosition = camera_position s, startLookAt = controls_target s,
             targetPosition = position (vps ! nat j), targetLookAt = lookAt (vps ! nat j),
             startTime = t, duration = 2000\<rparr>"
  have "animate controls_update ?f (startTime ?f) (s\<lparr>isEditing := True, isAnimating := True\<rparr>)
        = Inr (s\<lparr>isEditing := True, isAnimating := True,
                 camera_position := fst (controls_update (startPosition ?f, startLookAt ?f)),
                 controls_target := snd (controls_update (startPosition ?f, startLookAt ?f)),
                 frame_request := Some ?f\<rparr>)"
    by (rule animate_at_start) simp
  then have "setViewpoint controls_update vps j t t s =
          Inr (s\<lparr>isEditing := True, isAnimating := True,
                 camera_position := fst (controls_update (camera_position s, controls_target s)),
                 controls_target := snd (controls_update (camera_position s, controls_target s)),
                 frame_request := Some ?f\<rparr>)"
    using j(2,3) assms(3) by (simp add: setViewpoint_def animateToViewpoint_def Let_def)
  then show ?thesis using j by (simp add: wheel_timeout_def)
qed

text \<open>The two ways of writing the timer callback agree.\<close>

lemma handleWheel_timeout_eq:
  "handleWheel_timeout controls_update vps deltaY t0 t1 s =
     wheel_timeout controls_update vps deltaY t0 t1 s"
  by (simp add: handleWheel_timeout_def wheel_timeout_def next_index_def)

lemma render_frame_keeps:
  assumes "render_frame controls_update now s = Inr s'"
  shows "currentViewpoint s' = currentViewpoint s \<and> scrollTimeout s' = scrollTimeout s
       \<and> clock s' = clock s"
proof (cases "frame_request s")
  case None
  then show ?thesis using assms by (auto simp: render_frame_def Let_def)
next
  case (Some f)
  then show ?thesis
    using assms animate_keeps [of controls_update f now _ s']
    by (fastforce simp: render_frame_def Let_def)
qed

lemma render_frame_landing:
  assumes "frame_request s = Some f" "0 < duration f"
    and "duration f \<le> real_of_int (now - startTime f)"
  shows "render_frame controls_update now s =
           Inr (s\<lparr>camera_position := fst (controls_update (targetPosition f, targetLookAt f)),
                  controls_target := snd (controls_update (targetPosition f, targetLookAt f)),
                  isAnimating := False, isEditing := False, frame_request := None\<rparr>)"
  using assms by (simp add: render_frame_def Let_def animate_at_end)


lemma handleCustomPosition_keeps:
  assumes "handleCustomPosition controls_update pos look t0 t1 s = Inr s'"
  shows "currentViewpoint s' = currentViewpoint s \<and> scrollTimeout s' = scrollTimeout s
       \<and> clock s' = clock s"
  using assms animateToViewpoint_keeps [of controls_update pos look 2000 t0 t1 "s\<lparr>isEditing := True\<rparr>" s']
  by (simp add: handleCustomPosition_def setCustomViewpoint_def)

subsection \<open>Steps and runs\<close>

lemma step_clock:
  assumes "step controls_update vps i s = Inr s'"
  shows "clock s \<le> time_of i \<and> clock s' = time_of i"
proof (cases i)
  case (Wheel t deltaY)
  then show ?thesis using assms by (auto simp: step_def split: if_splits)
next
  case (Timeout t)
  then show ?thesis
    using assms
    by (auto simp: step_def split: if_splits option.splits dest!: wheel_timeout_result)
next
  case (Frame t)
  then show ?thesis
    using assms by (auto simp: step_def split: if_splits dest!: render_frame_keeps)
next
  case (ApplyPosition t pos look)
  then show ?thesis
    using assms by (auto simp: step_def split: if_splits dest!: handleCustomPosition_keeps)
qed

lemma run_clock:
  assumes "run controls_update vps tr s = Inr s'"
  shows "(\<forall>i \<in> set tr. clock s \<le> time_of i) \<and> clock s \<le> clock s'"
  using assms
proof (induction tr arbitrary: s)
  case Nil
  then show ?case by simp
next
  case (Cons i tr)
  then obtain s1 where s1: "step controls_update vps i s = Inr s1"
      "run controls_update vps tr s1 = Inr s'"
    by (auto split: sum.splits)
  have c: "clock s \<le> time_of i" "clock s1 = time_of i" using step_clock [OF s1(1)] by auto
  have "(\<forall>j \<in> set tr. clock s1 \<le> time_of j) \<and> clock s1 \<le> clock s'"
    using Cons.IH [OF s1(2)] .
  then show ?case using c by auto
qed

lemma run_append:
  "run controls_update vps (xs @ ys) s =
     (case run controls_update vps xs s of
        Inl e \<Rightarrow> Inl e
      | Inr s' \<Rightarrow> run controls_update vps ys s')"
  by (induction xs arbitrary: s) (auto split: sum.splits)

lemma step_wheel:
  assumes "step controls_update vps (Wheel t deltaY) s = Inr s'"
  shows "s' = s\<lparr>scrollTimeout := Some (t + 100, deltaY), clock := t\<rparr>"
  using assms by (simp add: step_def split: if_splits)

lemma step_timeout:
  assumes "step controls_update vps (Timeout t) s = Inr s'"
  shows "\<exists>due deltaY. scrollTimeout s = Some (due, deltaY) \<and> due \<le> t
           \<and> scrollTimeout s' = None
           \<and> next_index (int (length vps)) deltaY (currentViewpoint s) = Some (currentViewpoint s')"
  using assms
  by (auto simp: step_def split: if_splits option.splits dest!: wheel_timeout_result)

lemma step_other:
  assumes "step controls_update vps i s = Inr s'" "wheels [i] = []" "timeouts [i] = []"
  shows "scrollTimeout s' = scrollTimeout s \<and> currentViewpoint s' = currentViewpoint s"
proof (cases i)
  case (Frame t)
  then show ?thesis
    using assms by (auto simp: step_def split: if_splits dest!: render_frame_keeps)
next
  case (ApplyPosition t pos look)
  then show ?thesis
    using assms by (auto simp: step_def split: if_splits dest!: handleCustomPosition_keeps)
qed (use assms in simp_all)

lemma step_timeout_enabled:
  assumes "scrollTimeout s = Some (due, deltaY)" "due \<le> T" "clock s \<le> T"
    and "0 \<le> currentViewpoint s" "currentViewpoint s < int (length vps)"
  shows "\<exists>s'. step controls_update vps (Timeout T) s = Inr s'"
proof -
  have "\<exists>s'. wheel_timeout controls_update vps deltaY T T (s\<lparr>scrollTimeout := None, clock := T\<rparr>)
          = Inr s'"
    using wheel_timeout_total [of "s\<lparr>scrollTimeout := None, clock := T\<rparr>" vps
        controls_update deltaY T T] assms(4,5)
    by auto
  then show ?thesis using assms(1-3) by (simp add: step_def)
qed

lemma wheels_member: "(t, deltaY) \<in> set (wheels tr) \<Longrightarrow> Wheel t deltaY \<in> set tr"
  by (induction tr rule: wheels.induct) auto

subsection \<open>The debouncer\<close>

text \<open>A run without wheel events and without a pending timer cannot fire one; a run whose
  timer is armed by the last event of a burst fires it at most once, after the burst.\<close>

lemma run_quiet:
  assumes "run controls_update vps tr s = Inr s'" "scrollTimeout s = None" "wheels tr = []"
  shows "timeouts tr = [] \<and> scrollTimeout s' = None \<and> currentViewpoint s' = currentViewpoint s"
  using assms
proof (induction tr arbitrary: s)
  case Nil
  then show ?case by simp
next
  case (Cons i tr)
  then obtain s1 where s1: "step controls_update vps i s = Inr s1"
      "run controls_update vps tr s1 = Inr s'"
    by (auto split: sum.splits)
  show ?case
  proof (cases i)
    case (Wheel t deltaY)
    then show ?thesis using Cons.prems by simp
  next
    case (Timeout t)
    then show ?thesis using s1(1) Cons.prems(2) step_timeout by fastforce
  next
    case (Frame t)
    then have k: "scrollTimeout s1 = None" "currentViewpoint s1 = currentViewpoint s"
      using step_other [OF s1(1)] Cons.prems(2) by simp_all
    have "wheels tr = []" using Cons.prems(3) Frame by simp
    then show ?thesis using Cons.IH [OF s1(2) k(1)] k(2) Frame by simp
  next
    case (ApplyPosition t pos look)
    then have k: "scrollTimeout s1 = None" "currentViewpoint s1 = currentViewpoint s"
      using step_other [OF s1(1)] Cons.prems(2) by simp_all
    have "wheels tr = []" using Cons.prems(3) ApplyPosition by simp
    then show ?thesis using Cons.IH [OF s1(2) k(1)] k(2) ApplyPosition by simp
  qed
qed

lemma run_armed:
  assumes "run controls_update vps tr s = Inr s'"
    and "scrollTimeout s = Some (t0 + 100, d0)" and "t0 \<le> clock s"
    and "burst ((t0, d0) # wheels tr)"
  shows "(timeouts tr = []
          \<and> scrollTimeout s' = Some (fst (last ((t0, d0) # wheels tr)) + 100,
                                      snd (last ((t0, d0) # wheels tr)))
          \<and> currentViewpoint s' = currentViewpoint s)
       \<or> (\<exists>T. timeouts tr = [T] \<and> fst (last ((t0, d0) # wheels tr)) + 100 \<le> T
            \<and> scrollTimeout s' = None
            \<and> next_index (int (length vps)) (snd (last ((t0, d0) # wheels tr)))
                 (currentViewpoint s) = Some (currentViewpoint s'))"
  using assms
proof (induction tr arbitrary: s t0 d0)
  case Nil
  then show ?case by simp
next
  case (Cons i tr)
  then obtain s1 where s1: "step controls_update vps i s = Inr s1"
      "run controls_update vps tr s1 = Inr s'"
    by (auto split: sum.splits)
  have c1: "clock s \<le> time_of i" "clock s1 = time_of i" using step_clock [OF s1(1)] by auto
  show ?case
  proof (cases i)
    case (Wheel t deltaY)
    have a: "scrollTimeout s1 = Some (t + 100, deltaY)" "t \<le> clock s1"
        "currentViewpoint s1 = currentViewpoint s"
      using step_wheel [of controls_update vps t deltaY s s1] s1(1) Wheel by simp_all
    have b: "burst ((t, deltaY) # wheels tr)" using Cons.prems(4) Wheel by simp
    show ?thesis using Cons.IH [OF s1(2) a(1) a(2) b] a(3) Wheel by simp
  next
    case (Timeout T)
    obtain due deltaY where d: "scrollTimeout s = Some (due, deltaY)" "due \<le> T"
        "scrollTimeout s1 = None"
        "next_index (int (length vps)) deltaY (currentViewpoint s) = Some (currentViewpoint s1)"
      using step_timeout [of controls_update vps T s s1] s1(1) Timeout by auto
    have e: "due = t0 + 100" "deltaY = d0" using d(1) Cons.prems(2) by simp_all
    have w: "wheels tr = []"
    proof (rule ccontr)
      assume "wheels tr \<noteq> []"
      then obtain t' d' es where ws: "wheels tr = (t', d') # es"
        by (cases "wheels tr") auto
      have "Wheel t' d' \<in> set tr" using ws wheels_member [of t' d' tr] by simp
      then have "clock s1 \<le> t'" using run_clock [OF s1(2)] by fastforce
      moreover have "t' - t0 < 100" using Cons.prems(4) Timeout ws by simp
      ultimately show False using c1(2) Timeout d(2) e(1) by simp
    qed
    have q: "timeouts tr = [] \<and> scrollTimeout s' = None
             \<and> currentViewpoint s' = currentViewpoint s1"
      using run_quiet [OF s1(2) d(3) w] .
    show ?thesis using q w d e Timeout by simp
  next
    case (Frame t)
    then have k: "scrollTimeout s1 = scrollTimeout s" "currentViewpoint s1 = currentViewpoint s"
      using step_other [OF s1(1)] by simp_all
    have a: "scrollTimeout s1 = Some (t0 + 100, d0)" "t0 \<le> clock s1"
      using k(1) Cons.prems(2,3) c1 by simp_all
    have b: "burst ((t0, d0) # wheels tr)" using Cons.prems(4) Frame by simp
    show ?thesis using Cons.IH [OF s1(2) a b] k(2) Frame by simp
  next
    case (ApplyPosition t pos look)
    then have k: "scrollTimeout s1 = scrollTimeout s" "currentViewpoint s1 = currentViewpoint s"
      using step_other [OF s1(1)] by simp_all
    have a: "scrollTimeout s1 = Some (t0 + 100, d0)" "t0 \<le> clock s1"
      using k(1) Cons.prems(2,3) c1 by simp_all
    have b: "burst ((t0, d0) # wheels tr)" using Cons.prems(4) ApplyPosition by simp
    show ?thesis using Cons.IH [OF s1(2) a b] k(2) ApplyPosition by simp
  qed
qed

lemma run_unarmed:
  assumes "run controls_update vps tr s = Inr s'"
    and "scrollTimeout s = None" and "wheels tr \<noteq> []" and "burst (wheels tr)"
  shows "(timeouts tr = []
          \<and> scrollTimeout s' = Some (fst (last (wheels tr)) + 100, snd (last (wheels tr)))
          \<and> currentViewpoint s' = currentViewpoint s)
       \<or> (\<exists>T. timeouts tr = [T] \<and> fst (last (wheels tr)) + 100 \<le> T
            \<and> scrollTimeout s' = None
            \<and> next_index (int (length vps)) (snd (last (wheels tr)))
                 (currentViewpoint s) = Some (currentViewpoint s'))"
  using assms
proof (induction tr arbitrary: s)
  case Nil
  then show ?case by simp
next
  case (Cons i tr)
  then obtain s1 where s1: "step controls_update vps i s = Inr s1"
      "run controls_update vps tr s1 = Inr s'"
    by (auto split: sum.splits)
  show ?case
  proof (cases i)
    case (Wheel t deltaY)
    have a: "scrollTimeout s1 = Some (t + 100, deltaY)" "t \<le> clock s1"
        "currentViewpoint s1 = currentViewpoint s"
      using step_wheel [of controls_update vps t deltaY s s1] s1(1) Wheel by simp_all
    have b: "burst ((t, deltaY) # wheels tr)" using Cons.prems(4) Wheel by simp
    show ?thesis using run_armed [OF s1(2) a(1) a(2) b] a(3) Wheel by simp
  next
    case (Timeout t)
    then show ?thesis using s1(1) Cons.prems(2) step_timeout by fastforce
  next
    case (Frame t)
    then have k: "scrollTimeout s1 = None" "currentViewpoint s1 = currentViewpoint s"
      using step_other [OF s1(1)] Cons.prems(2) by simp_all
    have w: "wheels tr \<noteq> []" "burst (wheels tr)" using Cons.prems(3,4) Frame by simp_all
    show ?thesis using Cons.IH [OF s1(2) k(1) w] k(2) Frame by simp
  next
    case (ApplyPosition t pos look)
    then have k: "scrollTimeout s1 = None" "currentViewpoint s1 = currentViewpoint s"
      using step_other [OF s1(1)] Cons.prems(2) by simp_all
    have w: "wheels tr \<noteq> []" "burst (wheels tr)"
      using Cons.prems(3,4) ApplyPosition by simp_all
    show ?thesis using Cons.IH [OF s1(2) k(1) w] k(2) ApplyPosition by simp
  qed
qed

text \<open>
  Claim C6. Take any run of the component that starts with no timer pending and whose
  wheel events form a burst, each less than 100 ms after the previous one. Then the timer
  fires at most once in the run. While it has not fired it stays armed for 100 ms after the last
  event with that event's delta, the index is unchanged, and the browser can fire it at any
  later time. When it has fired, it did so once, no earlier than 100 ms after the last event
  of the burst, and the index moved in the direction of the last event: forward for a
  positive delta, backward otherwise.
\<close>

theorem wheel_burst_debounced:
  assumes "run controls_update vps tr s = Inr s'"
    and "scrollTimeout s = None"
    and "wheels tr \<noteq> []" and "burst (wheels tr)"
    and "0 \<le> currentViewpoint s" and "currentViewpoint s < int (length vps)"
  shows "(timeouts tr = []
          \<and> scrollTimeout s' = Some (fst (last (wheels tr)) + 100, snd (last (wheels tr)))
          \<and> currentViewpoint s' = currentViewpoint s
          \<and> (\<forall>T. fst (last (wheels tr)) + 100 \<le> T \<and> clock s' \<le> T \<longrightarrow>
                (\<exists>s''. step controls_update vps (Timeout T) s' = Inr s'')))
       \<or> (\<exists>T. timeouts tr = [T] \<and> fst (last (wheels tr)) + 100 \<le> T
            \<and> scrollTimeout s' = None
            \<and> currentViewpoint s' =
                (if 0 < snd (last (wheels tr))
                 then (currentViewpoint s + 1) mod int (length vps)
                 else (currentViewpoint s - 1 + int (length vps)) mod int (length vps)))"
proof -
  let ?t = "fst (last (wheels tr))" and ?d = "snd (last (wheels tr))"
  consider
    (pending) "timeouts tr = []" "scrollTimeout s' = Some (?t + 100, ?d)"
      "currentViewpoint s' = currentViewpoint s"
  | (fired) T where "timeouts tr = [T]" "?t + 100 \<le> T" "scrollTimeout s' = None"
      "next_index (int (length vps)) ?d (currentViewpoint s) = Some (currentViewpoint s')"
    using run_unarmed [OF assms(1-4)] by blast
  then show ?thesis
  proof cases
    case pending
    have "\<forall>T. ?t + 100 \<le> T \<and> clock s' \<le> T \<longrightarrow>
            (\<exists>s''. step controls_update vps (Timeout T) s' = Inr s'')"
      using step_timeout_enabled [OF pending(2)] assms(5,6) pending(3) by simp
    then show ?thesis using pending by simp
  next
    case fired
    have "currentViewpoint s' =
            (if 0 < ?d then (currentViewpoint s + 1) mod int (length vps)
             else (currentViewpoint s - 1 + int (length vps)) mod int (length vps))"
    proof (cases "0 < ?d")
      case True
      then show ?thesis using fired(4) next_index_forward [OF assms(5,6) True] by simp
    next
      case False
      then show ?thesis using fired(4) next_index_backward [OF assms(5,6) False] by simp
    qed
    then show ?thesis using fired by blast
  qed
qed

theorem wheel_burst_debounced_witness:
  "run id viewpoints [Wheel 0 1, Wheel 30 1, Wheel 60 (- 1), Timeout 160]
     \<lparr>currentViewpoint = 0, isAnimating = False, isEditing = False,
       camera_position = Vector3 52 (- 7) 5, controls_target = Vector3 43 (- 3) 16,
       frame_request = None, scrollTimeout = None, clock = 0\<rparr>
   = Inr
     \<lparr>currentViewpoint = 5, isAnimating = True, isEditing = True,
       camera_position = Vector3 52 (- 7) 5, controls_target = Vector3 43 (- 3) 16,
       frame_request =
         Some \<lparr>startPosition = Vector3 52 (- 7) 5, startLookAt = Vector3 43 (- 3) 16,
               targetPosition = Vector3 (- 15) 12 0, targetLookAt = Vector3 0 5 0,
               startTime = 160, duration = 2000\<rparr>,
       scrollTimeout = None, clock = 160\<rparr>
   \<and> wheels [Wheel 0 1, Wheel 30 1, Wheel 60 (- 1), Timeout 160] = [(0, 1), (30, 1), (60, - 1)]
   \<and> burst [(0, 1), (30, 1), (60, - 1)]
   \<and> timeouts [Wheel 0 1, Wheel 30 1, Wheel 60 (- 1), Timeout 160] = [160]
   \<and> run id viewpoints [Wheel 0 1, Wheel 30 1, Wheel 60 (- 1), Timeout 159]
     \<lparr>currentViewpoint = 0, isAnimating = False, isEditing = False,
       camera_position = Vector3 52 (- 7) 5, controls_target = Vector3 43 (- 3) 16,
       frame_request = None, scrollTimeout = None, clock = 0\<rparr>
   = Inl NotEnabled"
proof -
  have r: "run id viewpoints [Wheel 0 1, Wheel 30 1, Wheel 60 (- 1), Timeout 160]
     \<lparr>currentViewpoint = 0, isAnimating = False, isEditing = False,
       camera_position = Vector3 52 (- 7) 5, controls_target = Vector3 43 (- 3) 16,
       frame_request = None, scrollTimeout = None, clock = 0\<rparr>
   = Inr
     \<lparr>currentViewpoint = 5, isAnimating = True, isEditing = True,
       camera_position = Vector3 52 (- 7) 5, controls_target = Vector3 43 (- 3) 16,
       frame_request =
         Some \<lparr>startPosition = Vector3 52 (- 7) 5, startLookAt = Vector3 43 (- 3) 16,
               targetPosition = Vector3 (- 15) 12 0, targetLookAt = Vector3 0 5 0,
               startTime = 160, duration = 2000\<rparr>,
       scrollTimeout = None, clock = 160\<rparr>"
    by (simp add: step_def wheel_timeout_def next_index_def js_rem_def signed_modulo_int_def
        setViewpoint_def animateToViewpoint_def animate_def progress_of_def ease_def Let_def
        viewpoints_def)
  have e: "run id viewpoints [Wheel 0 1, Wheel 30 1, Wheel 60 (- 1), Timeout 159]
     \<lparr>currentViewpoint = 0, isAnimating = False, isEditing = False,
       camera_position = Vector3 52 (- 7) 5, controls_target = Vector3 43 (- 3) 16,
       frame_request = None, scrollTimeout = None, clock = 0\<rparr>
   = Inl NotEnabled"
    by (simp add: step_def)
  show ?thesis
    using wheel_burst_debounced [OF r] r e by (simp add: viewpoints_def)
qed

subsection \<open>Zero-delta wheel events\<close>

text \<open>
  Claim C4. A wheel event whose delta is exactly 0 is to be ignored: when its timer elapses
  no navigation intent is emitted and the current viewpoint index is unchanged. The code
  does not do this. The callback tests only \<^verbatim>\<open>event.deltaY > 0\<close>; \<^verbatim>\<open>part_000\<close> labels its
  two branches "Scroll down - next viewpoint" and "Scroll up - previous viewpoint", and a
  delta of 0, which a horizontal wheel gesture delivers, is neither, yet it takes the second
  branch. From the start-up state of the six-entry catalog, a wheel event with delta 0 at
  time 0 and its timer firing at time 100 move the index from 0 to 5 and start a transition
  toward the last viewpoint.
\<close>

theorem zero_delta_not_ignored:
  "run id viewpoints [Wheel 0 0, Timeout 100]
     \<lparr>currentViewpoint = 0, isAnimating = False, isEditing = False,
       camera_position = Vector3 52 (- 7) 5, controls_target = Vector3 43 (- 3) 16,
       frame_request = None, scrollTimeout = None, clock = 0\<rparr>
   = Inr
     \<lparr>currentViewpoint = 5, isAnimating = True, isEditing = True,
       camera_position = Vector3 52 (- 7) 5, controls_target = Vector3 43 (- 3) 16,
       frame_request =
         Some \<lparr>startPosition = Vector3 52 (- 7) 5, startLookAt = Vector3 43 (- 3) 16,
               targetPosition = Vector3 (- 15) 12 0, targetLookAt = Vector3 0 5 0,
               startTime = 100, duration = 2000\<rparr>,
       scrollTimeout = None, clock = 100\<rparr>"
  by (simp add: step_def wheel_timeout_def next_index_def js_rem_def signed_modulo_int_def
      setViewpoint_def animateToViewpoint_def animate_def progress_of_def ease_def Let_def
      viewpoints_def)

text \<open>The same happens from every state with the index inside the catalog: the zero-delta
  event arms the timer, and the callback takes the branch written for scrolling up.\<close>

lemma zero_delta_takes_backward_branch:
  assumes "0 \<le> currentViewpoint s" and "currentViewpoint s < int (length vps)"
    and "clock s \<le> t" and "t + 100 \<le> T"
  shows "\<exists>s'. run controls_update vps [Wheel t 0, Timeout T] s = Inr s'
           \<and> currentViewpoint s' =
               (currentViewpoint s - 1 + int (length vps)) mod int (length vps)
           \<and> scrollTimeout s' = None"
proof -
  let ?a = "s\<lparr>scrollTimeout := None, clock := T\<rparr>"
  obtain s' where s': "wheel_timeout controls_update vps 0 T T ?a = Inr s'"
    using wheel_timeout_total [of ?a vps controls_update 0 T T] assms(1,2) by auto
  have "next_index (int (length vps)) 0 (currentViewpoint ?a) = Some (currentViewpoint s')"
      "scrollTimeout s' = scrollTimeout ?a"
    using wheel_timeout_result [OF s'] by simp_all
  then have "currentViewpoint s' =
               (currentViewpoint s - 1 + int (length vps)) mod int (length vps)"
      "scrollTimeout s' = None"
    using next_index_backward [OF assms(1,2), of 0] by simp_all
  moreover have "run controls_update vps [Wheel t 0, Timeout T] s = Inr s'"
    using assms(3,4) s' by (simp add: step_def)
  ultimately show ?thesis by blast
qed

subsection \<open>The index and the transition in flight\<close>

lemma step_index_range:
  assumes "step controls_update vps i s = Inr s'"
    and "0 \<le> currentViewpoint s" and "currentViewpoint s < int (length vps)"
  shows "0 \<le> currentViewpoint s' \<and> currentViewpoint s' < int (length vps)"
proof (cases i)
  case (Wheel t deltaY)
  then show ?thesis using step_wheel [of controls_update vps t deltaY s s'] assms by simp
next
  case (Timeout t)
  then obtain deltaY where
    "next_index (int (length vps)) deltaY (currentViewpoint s) = Some (currentViewpoint s')"
    using step_timeout [of controls_update vps t s s'] assms(1) by auto
  then show ?thesis using next_index_total [OF assms(2,3), of deltaY] by simp
next
  case (Frame t)
  then show ?thesis using step_other [OF assms(1)] assms(2,3) by simp
next
  case (ApplyPosition t pos look)
  then show ?thesis using step_other [OF assms(1)] assms(2,3) by simp
qed

lemma run_index_range:
  assumes "run controls_update vps tr s = Inr s'"
    and "0 \<le> currentViewpoint s" and "currentViewpoint s < int (length vps)"
  shows "0 \<le> currentViewpoint s' \<and> currentViewpoint s' < int (length vps)"
  using assms
proof (induction tr arbitrary: s)
  case Nil
  then show ?case by simp
next
  case (Cons i tr)
  then obtain s1 where s1: "step controls_update vps i s = Inr s1"
      "run controls_update vps tr s1 = Inr s'"
    by (auto split: sum.splits)
  have "0 \<le> currentViewpoint s1" "currentViewpoint s1 < int (length vps)"
    using step_index_range [OF s1(1) Cons.prems(2,3)] by simp_all
  then show ?case using Cons.IH [OF s1(2)] by simp
qed

lemma mount_nonempty:
  assumes "vps \<noteq> []"
  shows "mount controls_update vps t =
           Inr \<lparr>currentViewpoint = 0, isAnimating = False, isEditing = False,
                camera_position =
                  fst (controls_update (controls_update (position (vps ! 0), lookAt (vps ! 0)))),
                controls_target =
                  snd (controls_update (controls_update (position (vps ! 0), lookAt (vps ! 0)))),
                frame_request = None, scrollTimeout = None, clock = t\<rparr>"
  using assms by (cases vps) (simp_all add: mount_def Let_def)

lemma advance_completed:
  assumes "\<not> isAnimating s"
    and "0 \<le> currentViewpoint s" and "currentViewpoint s < int (length vps)"
    and "clock s \<le> t"
  shows "\<exists>j. next_index (int (length vps)) deltaY (currentViewpoint s) = Some j
           \<and> 0 \<le> j \<and> j < int (length vps)
           \<and> run controls_update vps [Wheel t deltaY, Timeout (t + 100), Frame (t + 2100)] s =
               Inr (s\<lparr>currentViewpoint := j, isAnimating := False, isEditing := False,
                      camera_position :=
                        fst (controls_update (position (vps ! nat j), lookAt (vps ! nat j))),
                      controls_target :=
                        snd (controls_update (position (vps ! nat j), lookAt (vps ! nat j))),
                      frame_request := None, scrollTimeout := None, clock := t + 2100\<rparr>)"
proof -
  let ?s2 = "s\<lparr>scrollTimeout := None, clock := t + 100\<rparr>"
  obtain j where j: "next_index (int (length vps)) deltaY (currentViewpoint ?s2) = Some j"
      "0 \<le> j" "j < int (length vps)"
    and w: "wheel_timeout controls_update vps deltaY (t + 100) (t + 100) ?s2 =
               Inr (?s2\<lparr>currentViewpoint := j, isAnimating := True, isEditing := True,
                      camera_position :=
                        fst (controls_update (camera_position ?s2, controls_target ?s2)),
                      controls_target :=
                        snd (controls_update (camera_position ?s2, controls_target ?s2)),
                      frame_request :=
                        Some \<lparr>startPosition = camera_position ?s2,
                              startLookAt = controls_target ?s2,
                              targetPosition = position (vps ! nat j),
                              targetLookAt = lookAt (vps ! nat j),
                              startTime = t + 100, duration = 2000\<rparr>\<rparr>)"
    using wheel_timeout_accepted [of ?s2 vps deltaY controls_update "t + 100"] assms(1-3)
    by auto
  let ?f = "\<lparr>startPosition = camera_position s, startLookAt = controls_target s,
             targetPosition = position (vps ! nat j), targetLookAt = lookAt (vps ! nat j),
             startTime = t + 100, duration = 2000\<rparr>"
  let ?s3 = "s\<lparr>currentViewpoint := j, isAnimating := True, isEditing := True,
               camera_position := fst (controls_update (camera_position s, controls_target s)),
               controls_target := snd (controls_update (camera_position s, controls_target s)),
               frame_request := Some ?f, scrollTimeout := None, clock := t + 100\<rparr>"
  have a: "run controls_update vps [Wheel t deltaY, Timeout (t + 100)] s = Inr ?s3"
    using assms(4) w by (simp add: step_def)
  have b: "step controls_update vps (Frame (t + 2100)) ?s3 =
             Inr (?s3\<lparr>clock := t + 2100,
                    camera_position := fst (controls_update (targetPosition ?f, targetLookAt ?f)),
                    controls_target := snd (controls_update (targetPosition ?f, targetLookAt ?f)),
                    isAnimating := False, isEditing := False, frame_request := None\<rparr>)"
    by (simp add: step_def render_frame_landing [of _ ?f])
  have "run controls_update vps [Wheel t deltaY, Timeout (t + 100), Frame (t + 2100)] s =
          Inr (s\<lparr>currentViewpoint := j, isAnimating := False, isEditing := False,
                 camera_position :=
                   fst (controls_update (position (vps ! nat j), lookAt (vps ! nat j))),
                 controls_target :=
                   snd (controls_update (position (vps ! nat j), lookAt (vps ! nat j))),
                 frame_request := None, scrollTimeout := None, clock := t + 2100\<rparr>)"
    using a b
      run_append [of controls_update vps "[Wheel t deltaY, Timeout (t + 100)]"
        "[Frame (t + 2100)]" s]
    by simp
  then show ?thesis using j by auto
qed

lemma next_completed:
  assumes "\<not> isAnimating s"
    and "0 \<le> currentViewpoint s" and "currentViewpoint s < int (length vps)"
    and "clock s \<le> t" and "0 < deltaY"
  shows "\<exists>s'. run controls_update vps [Wheel t deltaY, Timeout (t + 100), Frame (t + 2100)] s
               = Inr s'
           \<and> currentViewpoint s' = (currentViewpoint s + 1) mod int (length vps)
           \<and> \<not> isAnimating s' \<and> clock s' = t + 2100"
proof -
  obtain j where j: "next_index (int (length vps)) deltaY (currentViewpoint s) = Some j"
    and r: "run controls_update vps [Wheel t deltaY, Timeout (t + 100), Frame (t + 2100)] s =
               Inr (s\<lparr>currentViewpoint := j, isAnimating := False, isEditing := False,
                      camera_position :=
                        fst (controls_update (position (vps ! nat j), lookAt (vps ! nat j))),
                      controls_target :=
                        snd (controls_update (position (vps ! nat j), lookAt (vps ! nat j))),
                      frame_request := None, scrollTimeout := None, clock := t + 2100\<rparr>)"
    using advance_completed [OF assms(1-4), where controls_update = controls_update
        and deltaY = deltaY] by blast
  have "j = (currentViewpoint s + 1) mod int (length vps)"
    using j next_index_forward [OF assms(2,3,5)] by simp
  then show ?thesis using r by simp
qed

lemma six_advances:
  assumes "length vps = 6"
    and "\<not> isAnimating s" and "currentViewpoint s = 0" and "clock s \<le> 0"
  shows "\<exists>s5 s6.
           run controls_update vps
             [Wheel 0 1, Timeout 100, Frame 2100,
              Wheel 3000 1, Timeout 3100, Frame 5100,
              Wheel 6000 1, Timeout 6100, Frame 8100,
              Wheel 9000 1, Timeout 9100, Frame 11100,
              Wheel 12000 1, Timeout 12100, Frame 14100] s = Inr s5
         \<and> currentViewpoint s5 = 5 \<and> \<not> isAnimating s5
         \<and> run controls_update vps [Wheel 15000 1, Timeout 15100, Frame 17100] s5 = Inr s6
         \<and> currentViewpoint s6 = 0"
proof -
  obtain s1 where s1:
    "run controls_update vps [Wheel 0 1, Timeout (0 + 100), Frame (0 + 2100)] s = Inr s1"
    "currentViewpoint s1 = 1" "\<not> isAnimating s1" "clock s1 = 2100"
    using next_completed [where s = s and vps = vps and t = 0 and deltaY = 1
        and controls_update = controls_update] assms by auto
  obtain s2 where s2:
    "run controls_update vps [Wheel 3000 1, Timeout (3000 + 100), Frame (3000 + 2100)] s1 = Inr s2"
    "currentViewpoint s2 = 2" "\<not> isAnimating s2" "clock s2 = 5100"
    using next_completed [where s = s1 and vps = vps and t = 3000 and deltaY = 1
        and controls_update = controls_update] assms(1) s1 by auto
  obtain s3 where s3:
    "run controls_update vps [Wheel 6000 1, Timeout (6000 + 100), Frame (6000 + 2100)] s2 = Inr s3"
    "currentViewpoint s3 = 3" "\<not> isAnimating s3" "clock s3 = 8100"
    using next_completed [where s = s2 and vps = vps and t = 6000 and deltaY = 1
        and controls_update = controls_update] assms(1) s2 by auto
  obtain s4 where s4:
    "run controls_update vps [Wheel 9000 1, Timeout (9000 + 100), Frame (9000 + 2100)] s3 = Inr s4"
    "currentViewpoint s4 = 4" "\<not> isAnimating s4" "clock s4 = 11100"
    using next_completed [where s = s3 and vps = vps and t = 9000 and deltaY = 1
        and controls_update = controls_update] assms(1) s3 by auto
  obtain s5 where s5:
    "run controls_update vps [Wheel 12000 1, Timeout (12000 + 100), Frame (12000 + 2100)] s4 = Inr s5"
    "currentViewpoint s5 = 5" "\<not> isAnimating s5" "clock s5 = 14100"
    using next_completed [where s = s4 and vps = vps and t = 12000 and deltaY = 1
        and controls_update = controls_update] assms(1) s4 by auto
  obtain s6 where s6:
    "run controls_update vps [Wheel 15000 1, Timeout (15000 + 100), Frame (15000 + 2100)] s5 = Inr s6"
    "currentViewpoint s6 = 0"
    using next_completed [where s = s5 and vps = vps and t = 15000 and deltaY = 1
        and controls_update = controls_update] assms(1) s5 by auto
  have "run controls_update vps
          ([Wheel 0 1, Timeout 100, Frame 2100] @ [Wheel 3000 1, Timeout 3100, Frame 5100]
           @ [Wheel 6000 1, Timeout 6100, Frame 8100] @ [Wheel 9000 1, Timeout 9100, Frame 11100]
           @ [Wheel 12000 1, Timeout 12100, Frame 14100]) s = Inr s5"
    using s1(1) s2(1) s3(1) s4(1) s5(1) by (simp only: run_append) simp
  then show ?thesis using s5 s6 by auto
qed




text \<open>
  Claim C8. An index inside the catalog stays inside it: the timer callback, forward or
  backward, always succeeds from such an index and returns one, and so does every run of
  the component. With a catalog of six viewpoints, five forward requests from the start-up
  state, each followed by the frame that completes its transition, bring the index to 5,
  and one more brings it back to 0.
\<close>

theorem index_stays_in_catalog:
  "(\<forall>s deltaY t0 t1.
      0 \<le> currentViewpoint s \<and> currentViewpoint s < int (length vps) \<longrightarrow>
      (\<exists>s'. wheel_timeout controls_update vps deltaY t0 t1 s = Inr s'
         \<and> 0 \<le> currentViewpoint s' \<and> currentViewpoint s' < int (length vps)))
   \<and> (\<forall>tr s s'.
      0 \<le> currentViewpoint s \<and> currentViewpoint s < int (length vps)
      \<and> run controls_update vps tr s = Inr s' \<longrightarrow>
      0 \<le> currentViewpoint s' \<and> currentViewpoint s' < int (length vps))
   \<and> (length vps = 6 \<longrightarrow>
      (\<exists>s0 s5 s6.
         mount controls_update vps 0 = Inr s0 \<and> currentViewpoint s0 = 0
       \<and> run controls_update vps
           [Wheel 0 1, Timeout 100, Frame 2100,
            Wheel 3000 1, Timeout 3100, Frame 5100,
            Wheel 6000 1, Timeout 6100, Frame 8100,
            Wheel 9000 1, Timeout 9100, Frame 11100,
            Wheel 12000 1, Timeout 12100, Frame 14100] s0 = Inr s5
       \<and> currentViewpoint s5 = 5 \<and> \<not> isAnimating s5
       \<and> run controls_update vps [Wheel 15000 1, Timeout 15100, Frame 17100] s5 = Inr s6
       \<and> currentViewpoint s6 = 0))"
proof (intro conjI allI impI)
  fix s :: app and deltaY :: real and t0 t1 :: int
  assume "0 \<le> currentViewpoint s \<and> currentViewpoint s < int (length vps)"
  then show "\<exists>s'. wheel_timeout controls_update vps deltaY t0 t1 s = Inr s'
         \<and> 0 \<le> currentViewpoint s' \<and> currentViewpoint s' < int (length vps)"
    using wheel_timeout_total [of s vps controls_update deltaY t0 t1] by blast
next
  fix tr and s s' :: app
  assume a: "0 \<le> currentViewpoint s \<and> currentViewpoint s < int (length vps)
      \<and> run controls_update vps tr s = Inr s'"
  then have "0 \<le> currentViewpoint s' \<and> currentViewpoint s' < int (length vps)"
    using run_index_range [of controls_update vps tr s s'] by blast
  then show "0 \<le> currentViewpoint s'" and "currentViewpoint s' < int (length vps)"
    by simp_all
next
  assume n: "length vps = 6"
  then have ne: "vps \<noteq> []" by auto
  let ?s0 = "\<lparr>currentViewpoint = 0, isAnimating = False, isEditing = False,
               camera_position =
                 fst (controls_update (controls_update (position (vps ! 0), lookAt (vps ! 0)))),
               controls_target =
                 snd (controls_update (controls_update (position (vps ! 0), lookAt (vps ! 0)))),
               frame_request = None, scrollTimeout = None, clock = 0\<rparr>"
  have m: "mount controls_update vps 0 = Inr ?s0" using ne by (rule mount_nonempty)
  show "\<exists>s0 s5 s6.
         mount controls_update vps 0 = Inr s0 \<and> currentViewpoint s0 = 0
       \<and> run controls_update vps
           [Wheel 0 1, Timeout 100, Frame 2100,
            Wheel 3000 1, Timeout 3100, Frame 5100,
            Wheel 6000 1, Timeout 6100, Frame 8100,
            Wheel 9000 1, Timeout 9100, Frame 11100,
            Wheel 12000 1, Timeout 12100, Frame 14100] s0 = Inr s5
       \<and> currentViewpoint s5 = 5 \<and> \<not> isAnimating s5
       \<and> run controls_update vps [Wheel 15000 1, Timeout 15100, Frame 17100] s5 = Inr s6
       \<and> currentViewpoint s6 = 0"
    using six_advances [of vps ?s0 controls_update] n m by auto
qed

theorem index_stays_in_catalog_witness:
  "(0::int) \<le> 0 \<and> (0::int) < int (length viewpoints)
   \<and> (\<exists>s'. wheel_timeout id viewpoints (- 1) 0 0
     \<lparr>currentViewpoint = 0, isAnimating = False, isEditing = False,
       camera_position = Vector3 52 (- 7) 5, controls_target = Vector3 43 (- 3) 16,
       frame_request = None, scrollTimeout = None, clock = 0\<rparr> = Inr s'
       \<and> 0 \<le> currentViewpoint s' \<and> currentViewpoint s' < 6)
   \<and> length viewpoints = 6
   \<and> (\<exists>s0 s5 s6.
         mount id viewpoints 0 = Inr s0 \<and> currentViewpoint s0 = 0
       \<and> run id viewpoints
           [Wheel 0 1, Timeout 100, Frame 2100,
            Wheel 3000 1, Timeout 3100, Frame 5100,
            Wheel 6000 1, Timeout 6100, Frame 8100,
            Wheel 9000 1, Timeout 9100, Frame 11100,
            Wheel 12000 1, Timeout 12100, Frame 14100] s0 = Inr s5
       \<and> currentViewpoint s5 = 5 \<and> \<not> isAnimating s5
       \<and> run id viewpoints [Wheel 15000 1, Timeout 15100, Frame 17100] s5 = Inr s6
       \<and> currentViewpoint s6 = 0)"
proof -
  have n: "length viewpoints = 6" by (simp add: viewpoints_def)
  have a: "\<exists>s'. wheel_timeout id viewpoints (- 1) 0 0
     \<lparr>currentViewpoint = 0, isAnimating = False, isEditing = False,
       camera_position = Vector3 52 (- 7) 5, controls_target = Vector3 43 (- 3) 16,
       frame_request = None, scrollTimeout = None, clock = 0\<rparr> = Inr s'
       \<and> 0 \<le> currentViewpoint s' \<and> currentViewpoint s' < 6"
    using index_stays_in_catalog [of viewpoints id, THEN conjunct1, rule_format,
        of "\<lparr>currentViewpoint = 0, isAnimating = False, isEditing = False,
       camera_position = Vector3 52 (- 7) 5, controls_target = Vector3 43 (- 3) 16,
       frame_request = None, scrollTimeout = None, clock = 0\<rparr>" "- 1" 0 0] n
    by simp
  have b: "\<exists>s0 s5 s6.
         mount id viewpoints 0 = Inr s0 \<and> currentViewpoint s0 = 0
       \<and> run id viewpoints
           [Wheel 0 1, Timeout 100, Frame 2100,
            Wheel 3000 1, Timeout 3100, Frame 5100,
            Wheel 6000 1, Timeout 6100, Frame 8100,
            Wheel 9000 1, Timeout 9100, Frame 11100,
            Wheel 12000 1, Timeout 12100, Frame 14100] s0 = Inr s5
       \<and> currentViewpoint s5 = 5 \<and> \<not> isAnimating s5
       \<and> run id viewpoints [Wheel 15000 1, Timeout 15100, Frame 17100] s5 = Inr s6
       \<and> currentViewpoint s6 = 0"
    using index_stays_in_catalog [of viewpoints id, THEN conjunct2, THEN conjunct2] n
    by blast
  show ?thesis using n a b by simp
qed

subsection \<open>Start-up\<close>

lemma step_no_request:
  assumes "step controls_update vps i s = Inr s'" "no_request i"
    and "\<not> isAnimating s" "frame_request s = None"
  shows "currentViewpoint s' = currentViewpoint s \<and> \<not> isAnimating s' \<and> frame_request s' = None"
proof (cases i)
  case (Wheel t deltaY)
  then show ?thesis using step_wheel [of controls_update vps t deltaY s s'] assms by simp
next
  case (Frame t)
  then show ?thesis
    using assms by (auto simp: step_def render_frame_def Let_def split: if_splits)
qed (use assms in simp_all)

lemma run_no_request:
  assumes "run controls_update vps tr s = Inr s'" "list_all no_request tr"
    and "\<not> isAnimating s" "frame_request s = None"
  shows "currentViewpoint s' = currentViewpoint s \<and> \<not> isAnimating s' \<and> frame_request s' = None"
  using assms
proof (induction tr arbitrary: s)
  case Nil
  then show ?case by simp
next
  case (Cons i tr)
  then obtain s1 where s1: "step controls_update vps i s = Inr s1"
      "run controls_update vps tr s1 = Inr s'"
    by (auto split: sum.splits)
  have i: "no_request i" "list_all no_request tr" using Cons.prems(2) by simp_all
  have k: "currentViewpoint s1 = currentViewpoint s" "\<not> isAnimating s1"
      "frame_request s1 = None"
    using step_no_request [OF s1(1) i(1) Cons.prems(3,4)] by simp_all
  show ?case using Cons.IH [OF s1(2) i(2) k(2,3)] k(1) by simp
qed

text \<open>
  Claim C10. Mounting the component with a non-empty catalog gives index 0, no active
  transition and no closure waiting for a frame; the camera position and the look-at
  target are assigned the position and look-at of catalog entry 0 directly, and that pose is
  handed to \<^verbatim>\<open>controls.update()\<close> (once by the start-up code, once by the first call of the
  render loop). As long as the inputs are only wheel events and animation frames, that is,
  before a timer fires or a custom pose is applied, the index stays 0 and no transition
  becomes active.
\<close>

theorem mount_idle_at_first_viewpoint:
  assumes "vps \<noteq> []"
  shows "\<exists>s0. mount controls_update vps t = Inr s0
       \<and> currentViewpoint s0 = 0 \<and> \<not> isAnimating s0 \<and> frame_request s0 = None
       \<and> scrollTimeout s0 = None
       \<and> (camera_position s0, controls_target s0) =
            controls_update (controls_update (position (vps ! 0), lookAt (vps ! 0)))
       \<and> (\<forall>tr s'. list_all no_request tr \<and> run controls_update vps tr s0 = Inr s' \<longrightarrow>
             currentViewpoint s' = 0 \<and> \<not> isAnimating s' \<and> frame_request s' = None)"
proof -
  let ?s0 = "\<lparr>currentViewpoint = 0, isAnimating = False, isEditing = False,
               camera_position =
                 fst (controls_update (controls_update (position (vps ! 0), lookAt (vps ! 0)))),
               controls_target =
                 snd (controls_update (controls_update (position (vps ! 0), lookAt (vps ! 0)))),
               frame_request = None, scrollTimeout = None, clock = t\<rparr>"
  have m: "mount controls_update vps t = Inr ?s0" using assms by (rule mount_nonempty)
  have "\<forall>tr s'. list_all no_request tr \<and> run controls_update vps tr ?s0 = Inr s' \<longrightarrow>
             currentViewpoint s' = 0 \<and> \<not> isAnimating s' \<and> frame_request s' = None"
  proof (intro allI impI)
    fix tr s'
    assume a: "list_all no_request tr \<and> run controls_update vps tr ?s0 = Inr s'"
    then show "currentViewpoint s' = 0 \<and> \<not> isAnimating s' \<and> frame_request s' = None"
      using run_no_request [of controls_update vps tr ?s0 s'] by simp
  qed
  then show ?thesis using m by simp
qed

theorem mount_idle_at_first_viewpoint_witness:
  "viewpoints \<noteq> []
   \<and> mount id viewpoints 0 = Inr
     \<lparr>currentViewpoint = 0, isAnimating = False, isEditing = False,
       camera_position = Vector3 52 (- 7) 5, controls_target = Vector3 43 (- 3) 16,
       frame_request = None, scrollTimeout = None, clock = 0\<rparr>
   \<and> list_all no_request [Wheel 10 1, Frame 20, Wheel 50 (- 1), Frame 60]
   \<and> (\<exists>s'. run id viewpoints [Wheel 10 1, Frame 20, Wheel 50 (- 1), Frame 60]
     \<lparr>currentViewpoint = 0, isAnimating = False, isEditing = False,
       camera_position = Vector3 52 (- 7) 5, controls_target = Vector3 43 (- 3) 16,
       frame_request = None, scrollTimeout = None, clock = 0\<rparr> = Inr s'
        \<and> currentViewpoint s' = 0 \<and> \<not> isAnimating s' \<and> frame_request s' = None)"
proof -
  have ne: "viewpoints \<noteq> []" by (simp add: viewpoints_def)
  obtain s0 where s0: "mount id viewpoints 0 = Inr s0"
    and k: "\<forall>tr s'. list_all no_request tr \<and> run id viewpoints tr s0 = Inr s' \<longrightarrow>
             currentViewpoint s' = 0 \<and> \<not> isAnimating s' \<and> frame_request s' = None"
    using mount_idle_at_first_viewpoint [OF ne, of id 0] by blast
  have m: "mount id viewpoints 0 = Inr
     \<lparr>currentViewpoint = 0, isAnimating = False, isEditing = False,
       camera_position = Vector3 52 (- 7) 5, controls_target = Vector3 43 (- 3) 16,
       frame_request = None, scrollTimeout = None, clock = 0\<rparr>"
    by (simp add: mount_def viewpoints_def)
  have e: "s0 =
     \<lparr>currentViewpoint = 0, isAnimating = False, isEditing = False,
       camera_position = Vector3 52 (- 7) 5, controls_target = Vector3 43 (- 3) 16,
       frame_request = None, scrollTimeout = None, clock = 0\<rparr>"
    using s0 m by simp
  have r: "\<exists>s'. run id viewpoints [Wheel 10 1, Frame 20, Wheel 50 (- 1), Frame 60]
     \<lparr>currentViewpoint = 0, isAnimating = False, isEditing = False,
       camera_position = Vector3 52 (- 7) 5, controls_target = Vector3 43 (- 3) 16,
       frame_request = None, scrollTimeout = None, clock = 0\<rparr> = Inr s'"
    by (simp add: step_def render_frame_def)
  have l: "list_all no_request [Wheel 10 1, Frame 20, Wheel 50 (- 1), Frame 60]" by simp
  show ?thesis using ne m l r k e by blast
qed

end
